theory Spec2Isabelle
  imports Main "HOL-Library.Multiset"
begin

section \<open>Error values\<close>

text \<open>
  The package returns Go \<open>error\<close> values from four origins: a failed system call
  (\<open>*os.PathError\<close>, \<open>*os.LinkError\<close>), an error made by code outside the package
  (a codec of the JSON, YAML or TOML library, or the caller's validation function),
  \<open>fmt.Errorf\<close> inside the package (with or without a wrapped error), and
  \<open>errors.Join\<close>.
\<close>

datatype oserr = ENOENT | EEXIST | EISDIR | ENOTDIR | EACCES | EXDEV | EIO | EBADF
  | PatternHasSeparator

datatype error =
    PathError string string oserr
  | LinkError string string string oserr
  | External string
  | Errorf string
  | Wrapped string error
  | JoinError "error list"

fun oserrText :: "oserr \<Rightarrow> string" where
  "oserrText ENOENT = ''no such file or directory''"
| "oserrText EEXIST = ''file exists''"
| "oserrText EISDIR = ''is a directory''"
| "oserrText ENOTDIR = ''not a directory''"
| "oserrText EACCES = ''permission denied''"
| "oserrText EXDEV = ''invalid cross-device link''"
| "oserrText EIO = ''input/output error''"
| "oserrText EBADF = ''bad file descriptor''"
| "oserrText PatternHasSeparator = ''pattern contains path separator''"

fun joinLines :: "string list \<Rightarrow> string" where
  "joinLines [] = []"
| "joinLines [m] = m"
| "joinLines (m # ms) = m @ [CHR 0x0A] @ joinLines ms"

text \<open>The \<open>Error()\<close> method: the message of an error value.\<close>

fun Error :: "error \<Rightarrow> string" where
  "Error (PathError opn p e) = opn @ '' '' @ p @ '': '' @ oserrText e"
| "Error (LinkError opn old new e) = opn @ '' '' @ old @ '' '' @ new @ '': '' @ oserrText e"
| "Error (External m) = m"
| "Error (Errorf m) = m"
| "Error (Wrapped m e) = m @ Error e"
| "Error (JoinError es) = joinLines (map Error es)"

text \<open>\<open>errors.Is(err, os.ErrNotExist)\<close>: follows \<open>Unwrap\<close> through wrapped and joined errors.\<close>

fun is_ErrNotExist :: "error \<Rightarrow> bool" where
  "is_ErrNotExist (PathError opn p e) = (e = ENOENT)"
| "is_ErrNotExist (LinkError opn old new e) = (e = ENOENT)"
| "is_ErrNotExist (External m) = False"
| "is_ErrNotExist (Errorf m) = False"
| "is_ErrNotExist (Wrapped m e) = is_ErrNotExist e"
| "is_ErrNotExist (JoinError es) = list_ex is_ErrNotExist es"

text \<open>
  \<open>errors.Join(errs...)\<close>: nil arguments are discarded; the result is nil when none is
  left, and otherwise one error that holds the others in argument order.
\<close>

definition errors_Join :: "error option list \<Rightarrow> error option" where
  "errors_Join errs =
     (case List.map_filter id errs of [] \<Rightarrow> None | e # es \<Rightarrow> Some (JoinError (e # es)))"

text \<open>The errors a joined error holds, through nested joins, left to right.\<close>

fun joined :: "error \<Rightarrow> error list" where
  "joined (JoinError es) = concat (map joined es)"
| "joined e = [e]"

section \<open>Lexical path functions of package \<open>path\<close>\<close>

text \<open>
  \<open>path.Ext\<close>: the suffix beginning at the final dot in the final slash-separated
  element; empty if there is no dot. The library scans from the end of the string;
  \<open>extScan\<close> is that loop on the reversed path, \<open>acc\<close> holding what was passed.
\<close>

fun extScan :: "string \<Rightarrow> string \<Rightarrow> string" where
  "extScan [] acc = []"
| "extScan (c # cs) acc =
     (if c = CHR ''/'' then []
      else if c = CHR ''.'' then c # acc
      else extScan cs (c # acc))"

definition path_Ext :: "string \<Rightarrow> string" where
  "path_Ext p = extScan (rev p) []"

text \<open>Splitting at every slash, and joining with slashes.\<close>

fun splitSlash :: "string \<Rightarrow> string list" where
  "splitSlash [] = [[]]"
| "splitSlash (c # cs) =
     (if c = CHR ''/'' then [] # splitSlash cs
      else (case splitSlash cs of [] \<Rightarrow> [[c]] | e # es \<Rightarrow> (c # e) # es))"

fun joinSlash :: "string list \<Rightarrow> string" where
  "joinSlash [] = []"
| "joinSlash [e] = e"
| "joinSlash (e # es) = e @ [CHR ''/''] @ joinSlash es"

text \<open>
  \<open>path.Clean\<close> on the elements of a path, the elements kept so far held as a stack
  (last kept element first): empty and \<open>.\<close> elements are dropped; \<open>..\<close> removes the
  element kept before it, is dropped at the root, and is kept at the start of a path
  that is not rooted.
\<close>

fun cleanStep :: "bool \<Rightarrow> string list \<Rightarrow> string \<Rightarrow> string list" where
  "cleanStep rooted stack e =
     (if e = [] \<or> e = ''.'' then stack
      else if e = ''..'' then
        (case stack of
           [] \<Rightarrow> if rooted then [] else [e]
         | e1 # rest \<Rightarrow> if e1 = ''..'' then e # stack else rest)
      else e # stack)"

definition path_Clean :: "string \<Rightarrow> string" where
  "path_Clean p =
     (if p = [] then ''.''
      else
        let rooted = (hd p = CHR ''/'');
            kept = rev (foldl (cleanStep rooted) [] (splitSlash p));
            out = (if rooted then ''/'' else []) @ joinSlash kept
        in if out = [] then ''.'' else out)"

text \<open>
  \<open>path.Join\<close>: empty elements before the first non-empty one are ignored, the rest
  are joined with slashes and cleaned; the result is empty when every element is.
\<close>

definition path_Join :: "string list \<Rightarrow> string" where
  "path_Join elems =
     (if concat elems = [] then []
      else path_Clean (joinSlash (dropWhile (\<lambda>e. e = []) elems)))"

section \<open>The process environment and the file system\<close>

text \<open>
  What the package reaches through packages \<open>os\<close> and \<open>log\<close>, as one state value.
  The file system is a flat table from path names to nodes. \<open>fault\<close> is the operating
  system's veto: a system call it names fails with the given error whatever the table
  holds (permission denied, cross-device link, I/O error, ...). \<open>rnd\<close> and \<open>tick\<close>
  are the random source of \<open>os.CreateTemp\<close>; \<open>sched\<close> holds the scheduler's future
  choices among runnable goroutines; \<open>logged\<close> collects the calls of \<open>log.Printf\<close>.
\<close>

datatype node = Regular string | Directory

datatype syscall =
    Stat string | Open string | FStat string | Read string | Create string
  | CreateTemp string | Write string | Rename string string | Remove string

record world =
  environ :: "string \<Rightarrow> string"
  executable :: "string option"
  tempDir :: string
  files :: "string \<Rightarrow> node option"
  dirSize :: nat
  fault :: "syscall \<Rightarrow> oserr option"
  rnd :: "nat \<Rightarrow> nat"
  tick :: nat
  sched :: "nat list"
  logged :: "(string \<times> string list) list"

text \<open>\<open>os.FileInfo\<close>, as far as the package reads it.\<close>

record FileInfo =
  IsDir :: bool
  Size :: nat

definition infoOf :: "world \<Rightarrow> node \<Rightarrow> FileInfo" where
  "infoOf w n =
     (case n of Regular bs \<Rightarrow> \<lparr>IsDir = False, Size = length bs\<rparr>
              | Directory \<Rightarrow> \<lparr>IsDir = True, Size = dirSize w\<rparr>)"

text \<open>\<open>os.Getenv\<close>: the value of the variable, empty when it is unset.\<close>

definition os_Getenv :: "string \<Rightarrow> world \<Rightarrow> string" where
  "os_Getenv key w = environ w key"

definition os_Stat :: "string \<Rightarrow> world \<Rightarrow> error + FileInfo" where
  "os_Stat p w =
     (case fault w (Stat p) of
        Some e \<Rightarrow> Inl (PathError ''stat'' p e)
      | None \<Rightarrow>
          (case files w p of
             None \<Rightarrow> Inl (PathError ''stat'' p ENOENT)
           | Some n \<Rightarrow> Inr (infoOf w n)))"

text \<open>
  An open file is known by its name: \<open>os_Open\<close> returns it, and the methods of
  \<open>*os.File\<close> below take it. Opening a directory succeeds; reading it fails.
\<close>

definition os_Open :: "string \<Rightarrow> world \<Rightarrow> error + string" where
  "os_Open p w =
     (case fault w (Open p) of
        Some e \<Rightarrow> Inl (PathError ''open'' p e)
      | None \<Rightarrow>
          (case files w p of
             None \<Rightarrow> Inl (PathError ''open'' p ENOENT)
           | Some n \<Rightarrow> Inr p))"

definition file_Stat :: "string \<Rightarrow> world \<Rightarrow> error + FileInfo" where
  "file_Stat f w =
     (case fault w (FStat f) of
        Some e \<Rightarrow> Inl (PathError ''stat'' f e)
      | None \<Rightarrow>
          (case files w f of
             None \<Rightarrow> Inl (PathError ''stat'' f EBADF)
           | Some n \<Rightarrow> Inr (infoOf w n)))"

definition file_ReadAll :: "string \<Rightarrow> world \<Rightarrow> error + string" where
  "file_ReadAll f w =
     (case fault w (Read f) of
        Some e \<Rightarrow> Inl (PathError ''read'' f e)
      | None \<Rightarrow>
          (case files w f of
             None \<Rightarrow> Inl (PathError ''read'' f EBADF)
           | Some Directory \<Rightarrow> Inl (PathError ''read'' f EISDIR)
           | Some (Regular bs) \<Rightarrow> Inr bs))"

text \<open>\<open>os.Create\<close>: creates or truncates the named file.\<close>

definition os_Create :: "string \<Rightarrow> world \<Rightarrow> error + string \<times> world" where
  "os_Create p w =
     (case fault w (Create p) of
        Some e \<Rightarrow> Inl (PathError ''open'' p e)
      | None \<Rightarrow>
          (case files w p of
             Some Directory \<Rightarrow> Inl (PathError ''open'' p EISDIR)
           | _ \<Rightarrow> Inr (p, w\<lparr>files := (files w)(p \<mapsto> Regular [])\<rparr>)))"

text \<open>Appending to an open regular file (what an encoder does with its output).\<close>

definition file_Write :: "string \<Rightarrow> string \<Rightarrow> world \<Rightarrow> error + world" where
  "file_Write f bs w =
     (case fault w (Write f) of
        Some e \<Rightarrow> Inl (PathError ''write'' f e)
      | None \<Rightarrow>
          (case files w f of
             Some (Regular old) \<Rightarrow> Inr (w\<lparr>files := (files w)(f \<mapsto> Regular (old @ bs))\<rparr>)
           | _ \<Rightarrow> Inl (PathError ''write'' f EBADF)))"

text \<open>
  \<open>os.Rename\<close>: moves the node of \<open>old\<close> to \<open>new\<close>, replacing a file there; renaming
  onto a directory fails.
\<close>

definition os_Rename :: "string \<Rightarrow> string \<Rightarrow> world \<Rightarrow> error + world" where
  "os_Rename old new w =
     (case fault w (Rename old new) of
        Some e \<Rightarrow> Inl (LinkError ''rename'' old new e)
      | None \<Rightarrow>
          (case files w old of
             None \<Rightarrow> Inl (LinkError ''rename'' old new ENOENT)
           | Some n \<Rightarrow>
               if files w new = Some Directory then Inl (LinkError ''rename'' old new EEXIST)
               else Inr (w\<lparr>files := (files w)(old := None, new \<mapsto> n)\<rparr>)))"

definition os_Remove :: "string \<Rightarrow> world \<Rightarrow> error + world" where
  "os_Remove p w =
     (case fault w (Remove p) of
        Some e \<Rightarrow> Inl (PathError ''remove'' p e)
      | None \<Rightarrow>
          (case files w p of
             None \<Rightarrow> Inl (PathError ''remove'' p ENOENT)
           | Some n \<Rightarrow> Inr (w\<lparr>files := (files w)(p := None)\<rparr>)))"

text \<open>\<open>log.Printf\<close>: the format and its rendered arguments are appended to the log.\<close>

definition log_Printf :: "string \<Rightarrow> string list \<Rightarrow> world \<Rightarrow> world" where
  "log_Printf fmt args w = w\<lparr>logged := logged w @ [(fmt, args)]\<rparr>"

subsection \<open>\<open>os.CreateTemp\<close>\<close>

text \<open>Decimal digits of a number (\<open>uitoa\<close> of package \<open>os\<close>).\<close>

definition digit :: "nat \<Rightarrow> char" where
  "digit d = ''0123456789'' ! (d mod 10)"

function uitoa :: "nat \<Rightarrow> string" where
  "uitoa n = (if n < 10 then [digit n] else uitoa (n div 10) @ [digit (n mod 10)])"
  by pat_completeness auto
termination
  by (relation "measure id") auto

declare uitoa.simps [simp del]

definition nextRandom :: "world \<Rightarrow> string \<times> world" where
  "nextRandom w = (uitoa (rnd w (tick w)), w\<lparr>tick := tick w + 1\<rparr>)"

text \<open>
  \<open>prefixAndSuffix\<close>: a pattern with a path separator is refused; otherwise the
  pattern is split at its last \<open>*\<close>, or is all prefix when it has none.
\<close>

definition prefixAndSuffix :: "string \<Rightarrow> error + string \<times> string" where
  "prefixAndSuffix pattern =
     (if CHR ''/'' \<in> set pattern then Inl (PathError ''createtemp'' pattern PatternHasSeparator)
      else if CHR ''*'' \<in> set pattern then
        Inr (rev (tl (dropWhile (\<lambda>c. c \<noteq> CHR ''*'') (rev pattern))),
             rev (takeWhile (\<lambda>c. c \<noteq> CHR ''*'') (rev pattern)))
      else Inr (pattern, []))"

definition joinPath :: "string \<Rightarrow> string \<Rightarrow> string" where
  "joinPath dir name =
     (if dir \<noteq> [] \<and> last dir = CHR ''/'' then dir @ name else dir @ ''/'' @ name)"

text \<open>
  The loop of \<open>os.CreateTemp\<close>: draw a name, create the file exclusively; a name
  that is taken is drawn again, at most 10000 times. The first argument counts the
  tries that are left.
\<close>

fun createTempLoop :: "nat \<Rightarrow> string \<Rightarrow> string \<Rightarrow> world \<Rightarrow> (error + string) \<times> world" where
  "createTempLoop 0 prefix suffix w =
     (Inl (PathError ''createtemp'' (prefix @ ''*'' @ suffix) EEXIST), w)"
| "createTempLoop (Suc n) prefix suffix w =
     (case nextRandom w of (r, w1) \<Rightarrow>
        let name = prefix @ r @ suffix in
        (case fault w1 (CreateTemp name) of
           Some e \<Rightarrow> (Inl (PathError ''open'' name e), w1)
         | None \<Rightarrow>
             (case files w1 name of
                Some taken \<Rightarrow> createTempLoop n prefix suffix w1
              | None \<Rightarrow> (Inr name, w1\<lparr>files := (files w1)(name \<mapsto> Regular [])\<rparr>))))"

definition os_CreateTemp :: "string \<Rightarrow> string \<Rightarrow> world \<Rightarrow> (error + string) \<times> world" where
  "os_CreateTemp dir pattern w =
     (case prefixAndSuffix pattern of
        Inl err \<Rightarrow> (Inl err, w)
      | Inr (prefix, suffix) \<Rightarrow> createTempLoop 10000 (joinPath dir prefix) suffix w)"

definition os_TempDir :: "world \<Rightarrow> string" where
  "os_TempDir w = tempDir w"

section \<open>The codec libraries\<close>

text \<open>
  \<open>encoding/json\<close>, \<open>gopkg.in/yaml.v3\<close> and \<open>github.com/BurntSushi/toml\<close> are not
  part of the package; the package is generic in the record type \<open>T\<close> and leaves every
  field to them. They are a parameter: \<open>Decode\<close> overlays a document onto the record
  it is given and may fail (having changed the record or not); \<open>Encode\<close> renders a
  record in a format, with the indentation the package configures, and may fail.
\<close>

datatype format = JSON | YAML | TOML

record 'cfg codec =
  Decode :: "format \<Rightarrow> string \<Rightarrow> 'cfg \<Rightarrow> error option \<times> 'cfg"
  Encode :: "format \<Rightarrow> 'cfg \<Rightarrow> error + string"

text \<open>A decoder reads its file to the end first; a read error is the decoder's error.\<close>

definition decoder_Decode ::
  "'cfg codec \<Rightarrow> format \<Rightarrow> string \<Rightarrow> 'cfg \<Rightarrow> world \<Rightarrow> error option \<times> 'cfg" where
  "decoder_Decode cd fmt f v w =
     (case file_ReadAll f w of
        Inl err \<Rightarrow> (Some err, v)
      | Inr bs \<Rightarrow> Decode cd fmt bs v)"

text \<open>An encoder is bound to the file it writes to.\<close>

definition encoder_Encode ::
  "'cfg codec \<Rightarrow> format \<times> string \<Rightarrow> 'cfg \<Rightarrow> world \<Rightarrow> error option \<times> world" where
  "encoder_Encode cd e v w =
     (case Encode cd (fst e) v of
        Inl err \<Rightarrow> (Some err, w)
      | Inr bs \<Rightarrow>
          (case file_Write (snd e) bs w of
             Inl err \<Rightarrow> (Some err, w)
           | Inr w' \<Rightarrow> (None, w')))"

section \<open>Package \<open>confix\<close>\<close>

abbreviation jsonConfigFileName :: string where "jsonConfigFileName \<equiv> ''config.json''"
abbreviation tomlConfigFileName :: string where "tomlConfigFileName \<equiv> ''config.toml''"
abbreviation yamlConfigFileName :: string where "yamlConfigFileName \<equiv> ''config.yaml''"
abbreviation ymlConfigFileName :: string where "ymlConfigFileName \<equiv> ''config.yml''"

abbreviation DirEnvName :: string where "DirEnvName \<equiv> ''CONFIG_DIR_PATH''"
abbreviation FilePathEnvName :: string where "FilePathEnvName \<equiv> ''CONFIG_FILE_PATH''"

text \<open>
  \<open>var currentDir, _ = os.Executable()\<close>: the path name of the running executable,
  and the empty string when \<open>os.Executable\<close> fails (its error is discarded).
\<close>

definition currentDir :: "world \<Rightarrow> string" where
  "currentDir w = (case executable w of Some exe \<Rightarrow> exe | None \<Rightarrow> [])"

text \<open>
  \<open>config[T]\<close>. The field \<open>cfg\<close> is a pointer to the caller's record in the source;
  here it is the record's current value, and every function that writes through the
  pointer returns the updated \<open>config\<close>.
\<close>

record 'cfg config =
  paths :: "string list"
  cfg :: 'cfg

definition fileExists :: "string \<Rightarrow> world \<Rightarrow> bool" where
  "fileExists path w =
     (case os_Stat path w of
        Inl err \<Rightarrow> False
      | Inr f \<Rightarrow> \<not> IsDir f)"

fun getExistingPaths :: "string list \<Rightarrow> world \<Rightarrow> string list" where
  "getExistingPaths [] w = []"
| "getExistingPaths (p # ps) w =
     (if fileExists p w then p # getExistingPaths ps w else getExistingPaths ps w)"

definition getEncoderForFile :: "string \<Rightarrow> string \<Rightarrow> error + format \<times> string" where
  "getEncoderForFile ext f =
     (if ext = ''.json'' then Inr (JSON, f)
      else if ext = ''.toml'' then Inr (TOML, f)
      else if ext = ''.yaml'' \<or> ext = ''.yml'' then Inr (YAML, f)
      else Inl (Errorf (''unsupported file extension: '' @ ext)))"

definition createTempFile :: "string \<Rightarrow> world \<Rightarrow> (error + string) \<times> world" where
  "createTempFile ext w = os_CreateTemp (os_TempDir w) ext w"

definition encodeToFile :: "'cfg codec \<Rightarrow> 'cfg config \<Rightarrow> string \<Rightarrow> world \<Rightarrow> error option \<times> world" where
  "encodeToFile cd c f w =
     (case getEncoderForFile (path_Ext f) f of
        Inl err \<Rightarrow> (Some err, w)
      | Inr e \<Rightarrow> encoder_Encode cd e (cfg c) w)"

text \<open>
  The deferred function of \<open>writeToFile\<close>: close the temporary file and remove it,
  both errors discarded.
\<close>

definition removeTemp :: "string \<Rightarrow> world \<Rightarrow> world" where
  "removeTemp f w = (case os_Remove f w of Inl err \<Rightarrow> w | Inr w' \<Rightarrow> w')"

definition writeToFile :: "'cfg codec \<Rightarrow> 'cfg config \<Rightarrow> string \<Rightarrow> world \<Rightarrow> error option \<times> world" where
  "writeToFile cd c fPath w =
     (case createTempFile (''config*'' @ path_Ext fPath) w of
        (Inl err, w1) \<Rightarrow> (Some err, w1)
      | (Inr f, w1) \<Rightarrow>
          (case
             (case encodeToFile cd c f w1 of
                (Some err, w2) \<Rightarrow> (Some err, w2)
              | (None, w2) \<Rightarrow>
                  (case os_Rename f fPath w2 of
                     Inl err \<Rightarrow>
                       (None, log_Printf ''ERROR: os.Rename(%q, %q); err=%v''
                                [f, fPath, Error err] w2)
                   | Inr w3 \<Rightarrow> (None, w3)))
           of (r, w4) \<Rightarrow> (r, removeTemp f w4)))"

definition setConfigPathForOneFile ::
  "'cfg codec \<Rightarrow> 'cfg config \<Rightarrow> string \<Rightarrow> world \<Rightarrow> error option \<times> 'cfg config \<times> world" where
  "setConfigPathForOneFile cd c configPath w =
     (if fileExists configPath w then (None, c\<lparr>paths := [configPath]\<rparr>, w)
      else
        (case os_Create configPath w of
           Inl err \<Rightarrow> (Some err, c, w)
         | Inr (f, w1) \<Rightarrow>
             (case writeToFile cd c f w1 of
                (Some err, w2) \<Rightarrow> (Some err, c, w2)
              | (None, w2) \<Rightarrow> (None, c, w2))))"

definition getConfigPaths ::
  "'cfg codec \<Rightarrow> 'cfg config \<Rightarrow> world \<Rightarrow> error option \<times> 'cfg config \<times> world" where
  "getConfigPaths cd c w =
     (let configPath = os_Getenv FilePathEnvName w; configDir = os_Getenv DirEnvName w in
      if configPath \<noteq> [] then setConfigPathForOneFile cd c configPath w
      else if configDir \<noteq> [] then
        (None,
         c\<lparr>paths := getExistingPaths
            [path_Join [configDir, jsonConfigFileName],
             path_Join [configDir, tomlConfigFileName],
             path_Join [configDir, ymlConfigFileName],
             path_Join [configDir, yamlConfigFileName]] w\<rparr>,
         w)
      else
        (None,
         c\<lparr>paths := getExistingPaths
            [path_Join [currentDir w, tomlConfigFileName],
             path_Join [currentDir w, jsonConfigFileName],
             path_Join [currentDir w, ymlConfigFileName],
             path_Join [currentDir w, yamlConfigFileName],
             tomlConfigFileName,
             jsonConfigFileName,
             ymlConfigFileName,
             yamlConfigFileName] w\<rparr>,
         w))"

text \<open>
  \<open>processPath\<close> only reads the file system, so it returns no new state of it. The
  record may have been written to by a decoder that fails, so it is returned on
  every path.
\<close>

definition processPath ::
  "'cfg codec \<Rightarrow> 'cfg config \<Rightarrow> string \<Rightarrow> world \<Rightarrow> error option \<times> 'cfg config" where
  "processPath cd c p w =
     (case os_Open p w of
        Inl err \<Rightarrow> if is_ErrNotExist err then (None, c) else (Some err, c)
      | Inr f \<Rightarrow>
          if (case file_Stat f w of Inl statErr \<Rightarrow> False | Inr fi \<Rightarrow> Size fi = 0)
          then (None, c)
          else
            let ext = path_Ext p in
            if ext = ''.json'' then
              (case decoder_Decode cd JSON f (cfg c) w of
                 (Some err, v) \<Rightarrow>
                   (Some (Wrapped ''error while decoding json file: '' err), c\<lparr>cfg := v\<rparr>)
               | (None, v) \<Rightarrow> (None, c\<lparr>cfg := v\<rparr>))
            else if ext = ''.yaml'' \<or> ext = ''.yml'' then
              (case decoder_Decode cd YAML f (cfg c) w of
                 (Some err, v) \<Rightarrow>
                   (Some (Wrapped ''error while decoding yaml file: '' err), c\<lparr>cfg := v\<rparr>)
               | (None, v) \<Rightarrow> (None, c\<lparr>cfg := v\<rparr>))
            else if ext = ''.toml'' then
              (case decoder_Decode cd TOML f (cfg c) w of
                 (Some err, v) \<Rightarrow>
                   (Some (Wrapped ''error while decoding toml file: '' err), c\<lparr>cfg := v\<rparr>)
               | (None, v) \<Rightarrow> (None, c\<lparr>cfg := v\<rparr>))
            else (Some (Errorf (''unsupported file extension: '' @ ext)), c))"

text \<open>The loop of \<open>load\<close> over \<open>c.paths\<close>, and \<open>load\<close>.\<close>

fun loadLoop ::
  "'cfg codec \<Rightarrow> string list \<Rightarrow> 'cfg config \<Rightarrow> world \<Rightarrow> error option \<times> 'cfg config" where
  "loadLoop cd [] c w = (None, c)"
| "loadLoop cd (p # ps) c w =
     (case processPath cd c p w of
        (Some err, c') \<Rightarrow> (Some err, c')
      | (None, c') \<Rightarrow> loadLoop cd ps c' w)"

definition load :: "'cfg codec \<Rightarrow> 'cfg config \<Rightarrow> world \<Rightarrow> error option \<times> 'cfg config" where
  "load cd c w = loadLoop cd (paths c) c w"

subsection \<open>Concurrent write-back\<close>

text \<open>
  \<open>writeToFiles\<close> starts one goroutine per path and waits for all of them. The
  goroutines share nothing but the file system and the error channel, and each
  works on a temporary file of its own; the model runs each goroutine's
  \<open>writeToFile\<close> as one step, the steps in an order the scheduler picks.
  \<open>runOrder\<close> turns the scheduler's choices into that order: the choice for a
  goroutine is the position it takes among those started after it, so every order
  of the goroutines is the result of some choices. The channel is a queue with
  room for every goroutine's error.
\<close>

definition insertAt :: "nat \<Rightarrow> 'a \<Rightarrow> 'a list \<Rightarrow> 'a list" where
  "insertAt k x ys = take k ys @ x # drop k ys"

fun runOrder :: "nat list \<Rightarrow> 'a list \<Rightarrow> 'a list" where
  "runOrder ks [] = []"
| "runOrder [] (x # xs) = x # runOrder [] xs"
| "runOrder (k # ks) (x # xs) = insertAt (k mod Suc (length xs)) x (runOrder ks xs)"

definition writeToFileAsync ::
  "'cfg codec \<Rightarrow> 'cfg config \<Rightarrow> string \<Rightarrow> error list \<times> world \<Rightarrow> error list \<times> world" where
  "writeToFileAsync cd c fPath s =
     (case s of (errCh, w) \<Rightarrow>
        (case writeToFile cd c fPath w of
           (Some err, w') \<Rightarrow> (errCh @ [err], w')
         | (None, w') \<Rightarrow> (errCh, w')))"

definition writeToFiles :: "'cfg codec \<Rightarrow> 'cfg config \<Rightarrow> world \<Rightarrow> error option \<times> world" where
  "writeToFiles cd c w =
     (let order = runOrder (sched w) (paths c);
          w0 = w\<lparr>sched := drop (length (paths c)) (sched w)\<rparr>
      in case fold (writeToFileAsync cd c) order ([], w0) of
           (errCh, w1) \<Rightarrow> (foldl (\<lambda>resultErr err. errors_Join [resultErr, Some err]) None errCh, w1))"

subsection \<open>Options and \<open>New\<close>\<close>

text \<open>
  \<open>Option[T]\<close> is an interface whose only method is unexported, so its values are
  exactly those the three constructors of the package make. A validation function
  receives the pointer to the record: it returns an error or not, and the record as
  it left it.
\<close>

datatype 'cfg afterOption =
    WithValidation "'cfg \<Rightarrow> error option \<times> 'cfg"
  | WithWritingConfigToFile string
  | WithSyncingConfigToFiles

fun applyOption ::
  "'cfg codec \<Rightarrow> 'cfg afterOption \<Rightarrow> 'cfg config \<Rightarrow> world \<Rightarrow> error option \<times> 'cfg config \<times> world" where
  "applyOption cd (WithValidation f) c w =
     (case f (cfg c) of (err, v) \<Rightarrow> (err, c\<lparr>cfg := v\<rparr>, w))"
| "applyOption cd (WithWritingConfigToFile f) c w =
     (case writeToFile cd c f w of (err, w') \<Rightarrow> (err, c, w'))"
| "applyOption cd WithSyncingConfigToFiles c w =
     (case writeToFiles cd c w of (err, w') \<Rightarrow> (err, c, w'))"

text \<open>The loop of \<open>newConfig\<close> over the options.\<close>

fun applyAll ::
  "'cfg codec \<Rightarrow> 'cfg afterOption list \<Rightarrow> 'cfg config \<Rightarrow> world \<Rightarrow> error option \<times> 'cfg config \<times> world" where
  "applyAll cd [] c w = (None, c, w)"
| "applyAll cd (f # fs) c w =
     (case applyOption cd f c w of
        (Some err, c', w') \<Rightarrow> (Some err, c', w')
      | (None, c', w') \<Rightarrow> applyAll cd fs c' w')"

text \<open>
  \<open>newConfig\<close> returns a nil \<open>*config\<close> with an error. The caller's record is
  reachable after the call all the same, so the model returns the \<open>config\<close> it
  reached in either case.
\<close>

definition newConfig ::
  "'cfg codec \<Rightarrow> 'cfg \<Rightarrow> 'cfg afterOption list \<Rightarrow> world \<Rightarrow> error option \<times> 'cfg config \<times> world" where
  "newConfig cd v afterFunc w =
     (let c = \<lparr>paths = [], cfg = v\<rparr> in
      case getConfigPaths cd c w of
        (Some err, c1, w1) \<Rightarrow> (Some err, c1, w1)
      | (None, c1, w1) \<Rightarrow>
          (case load cd c1 w1 of
             (Some err, c2) \<Rightarrow> (Some err, c2, w1)
           | (None, c2) \<Rightarrow> applyAll cd afterFunc c2 w1))"

text \<open>\<open>New\<close>: the error, the caller's record after the call, and the state left behind.\<close>

definition New ::
  "'cfg codec \<Rightarrow> 'cfg \<Rightarrow> 'cfg afterOption list \<Rightarrow> world \<Rightarrow> error option \<times> 'cfg \<times> world" where
  "New cd v afterInit w =
     (case newConfig cd v afterInit w of (err, c, w') \<Rightarrow> (err, cfg c, w'))"

section \<open>Fixtures\<close>

text \<open>
  The record of the package's tests (\<open>type testConfig struct { A string }\<close>), a small
  codec for it that reads and writes documents with the one field \<open>a\<close>, and a file
  system with a configuration directory, an installation directory and a temporary
  directory. The examples below run the package on them.
\<close>

record testConfig =
  A :: string

fun docPrefix :: "format \<Rightarrow> string" where
  "docPrefix JSON = ''{a:''"
| "docPrefix YAML = ''a: ''"
| "docPrefix TOML = ''a = ''"

fun docSuffix :: "format \<Rightarrow> string" where
  "docSuffix JSON = ''}''"
| "docSuffix YAML = []"
| "docSuffix TOML = []"

definition between :: "string \<Rightarrow> string \<Rightarrow> string \<Rightarrow> string option" where
  "between pre suf bs =
     (if length pre + length suf \<le> length bs \<and> take (length pre) bs = pre
         \<and> drop (length bs - length suf) bs = suf
      then Some (take (length bs - length pre - length suf) (drop (length pre) bs))
      else None)"

definition sampleCodec :: "testConfig codec" where
  "sampleCodec =
     \<lparr>Decode = (\<lambda>fmt bs v.
         case between (docPrefix fmt) (docSuffix fmt) bs of
           None \<Rightarrow> (Some (External ''syntax error''), v)
         | Some x \<Rightarrow> (None, v\<lparr>A := x\<rparr>)),
      Encode = (\<lambda>fmt v. Inr (docPrefix fmt @ A v @ docSuffix fmt))\<rparr>"

definition sampleFiles :: "string \<Rightarrow> node option" where
  "sampleFiles p =
     (if p = ''/etc/app/config.json'' then Some (Regular ''{a:x}'')
      else if p = ''/etc/app/config.yaml'' then Some (Regular ''a: y'')
      else if p = ''/etc/app/empty.toml'' then Some (Regular [])
      else if p = ''/etc/app/broken.json'' then Some (Regular ''{'')
      else if p = ''/etc/app/notes.txt'' then Some (Regular ''hello'')
      else if p = ''/opt/app/bin/server'' then Some (Regular ''ELF'')
      else if p = ''/opt/app/bin/config.toml'' then Some (Regular ''a = z'')
      else if p = ''/etc/app'' \<or> p = ''/opt/app/bin'' \<or> p = ''/tmp'' then Some Directory
      else None)"

definition sampleWorld :: world where
  "sampleWorld =
     \<lparr>environ = (\<lambda>key. []),
      executable = Some ''/opt/app/bin/server'',
      tempDir = ''/tmp'',
      files = sampleFiles,
      dirSize = 4096,
      fault = (\<lambda>call. None),
      rnd = (\<lambda>n. 7 + n),
      tick = 0,
      sched = [],
      logged = []\<rparr>"

text \<open>The sample world with one environment variable set.\<close>

definition withEnv :: "string \<Rightarrow> string \<Rightarrow> world \<Rightarrow> world" where
  "withEnv key val w = w\<lparr>environ := (environ w)(key := val)\<rparr>"

text \<open>The sample world with one system call refused.\<close>

definition withFault :: "syscall \<Rightarrow> oserr \<Rightarrow> world \<Rightarrow> world" where
  "withFault call e w = w\<lparr>fault := (fault w)(call \<mapsto> e)\<rparr>"

section \<open>Notions used in the statements\<close>

text \<open>The candidate lists of \<open>getConfigPaths\<close>, in the order the source writes them.\<close>

definition dirCandidates :: "string \<Rightarrow> string list" where
  "dirCandidates d =
     [path_Join [d, jsonConfigFileName],
      path_Join [d, tomlConfigFileName],
      path_Join [d, ymlConfigFileName],
      path_Join [d, yamlConfigFileName]]"

definition defaultCandidates :: "world \<Rightarrow> string list" where
  "defaultCandidates w =
     [path_Join [currentDir w, tomlConfigFileName],
      path_Join [currentDir w, jsonConfigFileName],
      path_Join [currentDir w, ymlConfigFileName],
      path_Join [currentDir w, yamlConfigFileName],
      tomlConfigFileName, jsonConfigFileName, ymlConfigFileName, yamlConfigFileName]"

text \<open>The format the loader's \<open>switch\<close> picks for an extension, and its name in messages.\<close>

definition formatOfExt :: "string \<Rightarrow> format option" where
  "formatOfExt ext =
     (if ext = ''.json'' then Some JSON
      else if ext = ''.yaml'' \<or> ext = ''.yml'' then Some YAML
      else if ext = ''.toml'' then Some TOML
      else None)"

fun formatName :: "format \<Rightarrow> string" where
  "formatName JSON = ''json''"
| "formatName YAML = ''yaml''"
| "formatName TOML = ''toml''"

text \<open>Two path lists over the sample files, for the examples of the loader.\<close>

definition threeFiles :: "testConfig config" where
  "threeFiles =
     \<lparr>paths = [''/etc/app/config.json'', ''/etc/app/broken.json'', ''/etc/app/config.yaml''],
      cfg = \<lparr>A = ''seed''\<rparr>\<rparr>"

definition twoFiles :: "testConfig config" where
  "twoFiles =
     \<lparr>paths = [''/etc/app/config.json'', ''/etc/app/notes.txt'', ''/etc/app/config.yaml''],
      cfg = \<lparr>A = ''seed''\<rparr>\<rparr>"

text \<open>A validation function that rejects every record and leaves it as it is.\<close>

definition rejectAll :: "testConfig \<Rightarrow> error option \<times> testConfig" where
  "rejectAll v = (Some (External ''rejected''), v)"

text \<open>
  Two states in which the operating system denies \<open>Stat\<close> on a file that is there:
  one with the directory hint set, one with the file hint set (and \<open>Create\<close> denied
  as well).
\<close>

definition deniedWorld :: world where
  "deniedWorld =
     withFault (Stat ''/etc/app/config.json'') EACCES (withEnv DirEnvName ''/etc/app'' sampleWorld)"

definition deniedFile :: world where
  "deniedFile =
     withFault (Create ''/etc/app/config.json'') EACCES
       (withFault (Stat ''/etc/app/config.json'') EACCES
          (withEnv FilePathEnvName ''/etc/app/config.json'' sampleWorld))"

section \<open>Basic facts\<close>

lemma getExistingPaths_filter: "getExistingPaths ps w = filter (\<lambda>p. fileExists p w) ps"
  by (induction ps) simp_all

lemma getExistingPaths_none:
  "\<forall>p \<in> set ps. \<not> fileExists p w \<Longrightarrow> getExistingPaths ps w = []"
  by (induction ps) simp_all

lemma loadLoop_append:
  "loadLoop cd (pre @ post) c w =
     (case loadLoop cd pre c w of
        (Some err, c') \<Rightarrow> (Some err, c')
      | (None, c') \<Rightarrow> loadLoop cd post c' w)"
  by (induction pre arbitrary: c) (auto split: prod.splits option.splits)

lemma applyAll_append:
  "applyAll cd (pre @ post) c w =
     (case applyAll cd pre c w of
        (Some err, c', w') \<Rightarrow> (Some err, c', w')
      | (None, c', w') \<Rightarrow> applyAll cd post c' w')"
  by (induction pre arbitrary: c w) (auto split: prod.splits option.splits)

lemma getConfigPaths_dir:
  "os_Getenv FilePathEnvName w = [] \<Longrightarrow> os_Getenv DirEnvName w = d \<Longrightarrow> d \<noteq> [] \<Longrightarrow>
   getConfigPaths cd c w = (None, c\<lparr>paths := getExistingPaths (dirCandidates d) w\<rparr>, w)"
  by (simp add: getConfigPaths_def dirCandidates_def)

lemma getConfigPaths_default:
  "os_Getenv FilePathEnvName w = [] \<Longrightarrow> os_Getenv DirEnvName w = [] \<Longrightarrow>
   getConfigPaths cd c w = (None, c\<lparr>paths := getExistingPaths (defaultCandidates w) w\<rparr>, w)"
  by (simp add: getConfigPaths_def defaultCandidates_def)

lemma getConfigPaths_file:
  "os_Getenv FilePathEnvName w = p \<Longrightarrow> p \<noteq> [] \<Longrightarrow>
   getConfigPaths cd c w = setConfigPathForOneFile cd c p w"
  by (simp add: getConfigPaths_def)

subsection \<open>Absent and empty files in the loader\<close>

lemma processPath_absent:
  "files w p = None \<Longrightarrow> fault w (Open p) = None \<Longrightarrow> processPath cd c p w = (None, c)"
  by (simp add: processPath_def os_Open_def)

lemma processPath_empty:
  "files w p = Some (Regular []) \<Longrightarrow> fault w (Open p) = None \<Longrightarrow> fault w (FStat p) = None
   \<Longrightarrow> processPath cd c p w = (None, c)"
  by (simp add: processPath_def os_Open_def file_Stat_def infoOf_def)

subsection \<open>The branches of \<open>processPath\<close>\<close>

lemma os_Open_name: "os_Open p w = Inr f \<Longrightarrow> f = p"
  by (auto simp: os_Open_def split: option.splits)

lemma os_Open_Inr_iff:
  "os_Open p w = Inr f \<longleftrightarrow> f = p \<and> fault w (Open p) = None \<and> files w p \<noteq> None"
  by (auto simp: os_Open_def split: option.splits)

lemma os_Open_error_form: "os_Open p w = Inl err \<Longrightarrow> \<exists>e. err = PathError ''open'' p e"
  by (auto simp: os_Open_def split: option.splits)

lemma processPath_decode:
  assumes "os_Open p w = Inr f"
      and "\<not> (\<exists>fi. file_Stat f w = Inr fi \<and> Size fi = 0)"
      and "formatOfExt (path_Ext p) = Some fmt"
  shows "processPath cd c p w =
     (case decoder_Decode cd fmt f (cfg c) w of
        (Some err, v) \<Rightarrow>
          (Some (Wrapped (''error while decoding '' @ formatName fmt @ '' file: '') err),
           c\<lparr>cfg := v\<rparr>)
      | (None, v) \<Rightarrow> (None, c\<lparr>cfg := v\<rparr>))"
  using assms
  by (cases fmt)
     (auto simp: processPath_def formatOfExt_def
           split: sum.splits if_splits prod.splits option.splits)

lemma processPath_unsupported:
  assumes "os_Open p w = Inr f"
      and "\<not> (\<exists>fi. file_Stat f w = Inr fi \<and> Size fi = 0)"
      and "formatOfExt (path_Ext p) = None"
  shows "processPath cd c p w = (Some (Errorf (''unsupported file extension: '' @ path_Ext p)), c)"
  using assms
  by (auto simp: processPath_def formatOfExt_def split: sum.splits if_splits)

lemma processPath_Errorf:
  assumes "processPath cd c p w = (Some (Errorf m), c')"
  shows "m = ''unsupported file extension: '' @ path_Ext p \<and> formatOfExt (path_Ext p) = None
         \<and> c' = c \<and> os_Open p w = Inr p
         \<and> \<not> (\<exists>fi. file_Stat p w = Inr fi \<and> Size fi = 0)"
proof (cases "os_Open p w")
  case (Inl err)
  then obtain e where "err = PathError ''open'' p e"
    using os_Open_error_form by blast
  with Inl assms show ?thesis
    by (simp add: processPath_def split: if_splits)
next
  case (Inr f)
  then have f: "f = p" by (rule os_Open_name)
  with Inr assms show ?thesis
    by (auto simp: processPath_def formatOfExt_def Let_def
             split: if_splits sum.splits prod.splits option.splits)
qed

subsection \<open>Unfolding the system calls and the fixtures\<close>

lemmas os_defs = os_Getenv_def os_Stat_def os_Open_def file_Stat_def file_ReadAll_def
  os_Create_def file_Write_def os_Rename_def os_Remove_def log_Printf_def infoOf_def

lemmas sample_defs = sampleWorld_def sampleFiles_def sampleCodec_def between_def
  withEnv_def withFault_def

subsection \<open>The loop of \<open>load\<close> stops at the first error\<close>

lemma loadLoop_stops:
  assumes "loadLoop cd pre c w = (None, c1)"
      and "processPath cd c1 p w = (Some e, c2)"
  shows "loadLoop cd (pre @ p # rest) c w = (Some e, c2)"
  using assms by (simp add: loadLoop_append)

subsection \<open>Probing a path\<close>

lemma fileExists_iff:
  "fileExists p w \<longleftrightarrow> fault w (Stat p) = None \<and> (\<exists>bs. files w p = Some (Regular bs))"
  by (auto simp: fileExists_def os_Stat_def infoOf_def split: option.splits node.splits)

subsection \<open>The default search\<close>

lemma default_resolution:
  "os_Getenv FilePathEnvName w = [] \<Longrightarrow> os_Getenv DirEnvName w = [] \<Longrightarrow>
   getConfigPaths cd c w =
     (None,
      c\<lparr>paths := filter (\<lambda>q. fileExists q w)
          (map (\<lambda>n. path_Join [currentDir w, n])
             [tomlConfigFileName, jsonConfigFileName, ymlConfigFileName, yamlConfigFileName]
           @ [tomlConfigFileName, jsonConfigFileName, ymlConfigFileName, yamlConfigFileName])\<rparr>,
      w)"
  by (simp add: getConfigPaths_default getExistingPaths_filter defaultCandidates_def)

section \<open>The claims\<close>

text \<open>
  C9. Processing a path whose file is absent, or is a regular file of zero bytes,
  returns no error and returns the \<open>config\<close> it was given (the record and the path
  list unchanged); the file counts as absent or empty when the table says so and
  the operating system refuses neither \<open>Open\<close> nor \<open>Stat\<close> on it. When neither
  environment variable is set and none of the eight default candidates exists,
  \<open>New\<close> without options returns no error, the caller's record as it was passed,
  and the state it started in.
\<close>

theorem absent_or_empty_file_leaves_record:
  "((files w p = None \<and> fault w (Open p) = None)
      \<or> (files w p = Some (Regular []) \<and> fault w (Open p) = None \<and> fault w (FStat p) = None)
     \<longrightarrow> processPath cd c p w = (None, c))
   \<and> (os_Getenv FilePathEnvName w = [] \<and> os_Getenv DirEnvName w = []
        \<and> (\<forall>q \<in> set (defaultCandidates w). \<not> fileExists q w)
     \<longrightarrow> New cd v [] w = (None, v, w))"
proof (intro conjI impI)
  assume "(files w p = None \<and> fault w (Open p) = None)
      \<or> (files w p = Some (Regular []) \<and> fault w (Open p) = None \<and> fault w (FStat p) = None)"
  then show "processPath cd c p w = (None, c)"
    using processPath_absent processPath_empty by blast
next
  assume a: "os_Getenv FilePathEnvName w = [] \<and> os_Getenv DirEnvName w = []
        \<and> (\<forall>q \<in> set (defaultCandidates w). \<not> fileExists q w)"
  then have "getConfigPaths cd \<lparr>paths = [], cfg = v\<rparr> w = (None, \<lparr>paths = [], cfg = v\<rparr>, w)"
    by (simp add: getConfigPaths_default getExistingPaths_none)
  then show "New cd v [] w = (None, v, w)"
    by (simp add: New_def newConfig_def load_def)
qed

theorem absent_or_empty_file_leaves_record_witness:
  "processPath sampleCodec \<lparr>paths = [''/etc/app/empty.toml''], cfg = \<lparr>A = ''seed''\<rparr>\<rparr>
      ''/etc/app/empty.toml'' sampleWorld
     = (None, \<lparr>paths = [''/etc/app/empty.toml''], cfg = \<lparr>A = ''seed''\<rparr>\<rparr>)
   \<and> New sampleCodec \<lparr>A = ''seed''\<rparr> [] sampleWorld = (None, \<lparr>A = ''seed''\<rparr>, sampleWorld)"
  using absent_or_empty_file_leaves_record
    [of sampleWorld "''/etc/app/empty.toml''" sampleCodec
        "\<lparr>paths = [''/etc/app/empty.toml''], cfg = \<lparr>A = ''seed''\<rparr>\<rparr>" "\<lparr>A = ''seed''\<rparr>"]
  by (simp add: sampleWorld_def sampleFiles_def os_Getenv_def defaultCandidates_def
      fileExists_def os_Stat_def currentDir_def path_Join_def path_Clean_def)

text \<open>
  C10. In \<open>processPath\<close> the check for an absent file comes before the switch on the
  extension: when \<open>os.Open\<close> reports that the path does not exist, \<open>processPath\<close>
  returns no error and the \<open>config\<close> unchanged, whatever the extension. An
  "unsupported file extension" error (the only \<open>fmt.Errorf\<close> without a wrapped error
  in \<open>processPath\<close>) is returned only for a path that was opened, whose file
  therefore exists, and whose size is not zero (where \<open>Stat\<close> on the open file
  reports the size).
\<close>

theorem unsupported_extension_only_for_open_nonempty_file:
  "(os_Open p w = Inl err \<and> is_ErrNotExist err \<longrightarrow> processPath cd c p w = (None, c))
   \<and> (processPath cd c p w = (Some (Errorf m), c') \<longrightarrow>
        m = ''unsupported file extension: '' @ path_Ext p
        \<and> formatOfExt (path_Ext p) = None
        \<and> os_Open p w = Inr p
        \<and> (\<exists>n. files w p = Some n \<and> (fault w (FStat p) = None \<longrightarrow> Size (infoOf w n) \<noteq> 0)))"
proof (intro conjI impI)
  assume "os_Open p w = Inl err \<and> is_ErrNotExist err"
  then show "processPath cd c p w = (None, c)"
    by (simp add: processPath_def)
next
  assume a: "processPath cd c p w = (Some (Errorf m), c')"
  note f = processPath_Errorf [OF a]
  from f show "m = ''unsupported file extension: '' @ path_Ext p" by simp
  from f show "formatOfExt (path_Ext p) = None" by simp
  from f show o: "os_Open p w = Inr p" by simp
  from o obtain n where n: "files w p = Some n"
    by (auto simp: os_Open_Inr_iff)
  from f have "\<not> (\<exists>fi. file_Stat p w = Inr fi \<and> Size fi = 0)" by simp
  with n have "fault w (FStat p) = None \<longrightarrow> Size (infoOf w n) \<noteq> 0"
    by (auto simp: file_Stat_def)
  with n show "\<exists>n. files w p = Some n \<and> (fault w (FStat p) = None \<longrightarrow> Size (infoOf w n) \<noteq> 0)"
    by simp
qed

theorem unsupported_extension_only_for_open_nonempty_file_witness:
  "processPath sampleCodec \<lparr>paths = [], cfg = \<lparr>A = ''seed''\<rparr>\<rparr> ''/etc/app/missing.txt'' sampleWorld
     = (None, \<lparr>paths = [], cfg = \<lparr>A = ''seed''\<rparr>\<rparr>)
   \<and> files sampleWorld ''/etc/app/notes.txt'' = Some (Regular ''hello'')
   \<and> path_Ext ''/etc/app/notes.txt'' = ''.txt''"
  using unsupported_extension_only_for_open_nonempty_file
          [of "''/etc/app/missing.txt''" sampleWorld
              "PathError ''open'' ''/etc/app/missing.txt'' ENOENT"
              sampleCodec "\<lparr>paths = [], cfg = \<lparr>A = ''seed''\<rparr>\<rparr>"]
        unsupported_extension_only_for_open_nonempty_file
          [of "''/etc/app/notes.txt''" sampleWorld _ sampleCodec
              "\<lparr>paths = [], cfg = \<lparr>A = ''seed''\<rparr>\<rparr>"
              "''unsupported file extension: .txt''" "\<lparr>paths = [], cfg = \<lparr>A = ''seed''\<rparr>\<rparr>"]
  by (simp add: sampleWorld_def sampleFiles_def os_Open_def processPath_def file_Stat_def
        infoOf_def path_Ext_def)

text \<open>
  C6. Let the path list be \<open>pre @ p # post\<close>, every path of \<open>pre\<close> processed without
  error, and \<open>p\<close> a file that is opened and not skipped as empty. If the extension
  of \<open>p\<close> selects a format and the decoder of that format fails with \<open>err\<close>, \<open>load\<close>
  returns \<open>err\<close> wrapped in a message that names the format (json, yaml or toml)
  and the record as the failing decoder left it; if the extension selects no
  format, \<open>load\<close> returns the unsupported-extension error. In both cases the
  result is the same for every list that follows \<open>p\<close>: no later path is processed.
\<close>

theorem first_load_error_aborts:
  assumes "paths c = pre @ p # post"
      and "loadLoop cd pre c w = (None, c1)"
      and "os_Open p w = Inr f"
      and "\<not> (\<exists>fi. file_Stat f w = Inr fi \<and> Size fi = 0)"
  shows "(formatOfExt (path_Ext p) = Some fmt
            \<and> decoder_Decode cd fmt f (cfg c1) w = (Some err, v) \<longrightarrow>
          load cd c w =
            (Some (Wrapped (''error while decoding '' @ formatName fmt @ '' file: '') err),
             c1\<lparr>cfg := v\<rparr>)
          \<and> (\<forall>rest. loadLoop cd (pre @ p # rest) c w = load cd c w)
          \<and> Error (Wrapped (''error while decoding '' @ formatName fmt @ '' file: '') err)
              = ''error while decoding '' @ formatName fmt @ '' file: '' @ Error err)
       \<and> (formatOfExt (path_Ext p) = None \<longrightarrow>
          load cd c w = (Some (Errorf (''unsupported file extension: '' @ path_Ext p)), c1)
          \<and> (\<forall>rest. loadLoop cd (pre @ p # rest) c w = load cd c w))"
proof (intro conjI impI allI)
  assume a: "formatOfExt (path_Ext p) = Some fmt
            \<and> decoder_Decode cd fmt f (cfg c1) w = (Some err, v)"
  then have pp: "processPath cd c1 p w =
      (Some (Wrapped (''error while decoding '' @ formatName fmt @ '' file: '') err),
       c1\<lparr>cfg := v\<rparr>)"
    using processPath_decode [OF assms(3) assms(4), of fmt cd c1] by simp
  show l: "load cd c w =
      (Some (Wrapped (''error while decoding '' @ formatName fmt @ '' file: '') err),
       c1\<lparr>cfg := v\<rparr>)"
    unfolding load_def assms(1) by (rule loadLoop_stops [OF assms(2) pp])
  show "loadLoop cd (pre @ p # rest) c w = load cd c w" for rest
    unfolding l by (rule loadLoop_stops [OF assms(2) pp])
  show "Error (Wrapped (''error while decoding '' @ formatName fmt @ '' file: '') err)
              = ''error while decoding '' @ formatName fmt @ '' file: '' @ Error err"
    by simp
next
  assume a: "formatOfExt (path_Ext p) = None"
  have pp: "processPath cd c1 p w
      = (Some (Errorf (''unsupported file extension: '' @ path_Ext p)), c1)"
    by (rule processPath_unsupported [OF assms(3) assms(4) a])
  show l: "load cd c w = (Some (Errorf (''unsupported file extension: '' @ path_Ext p)), c1)"
    unfolding load_def assms(1) by (rule loadLoop_stops [OF assms(2) pp])
  show "loadLoop cd (pre @ p # rest) c w = load cd c w" for rest
    unfolding l by (rule loadLoop_stops [OF assms(2) pp])
qed

theorem first_load_error_aborts_witness:
  "load sampleCodec threeFiles sampleWorld =
     (Some (Wrapped ''error while decoding json file: '' (External ''syntax error'')),
      threeFiles\<lparr>cfg := \<lparr>A = ''x''\<rparr>\<rparr>)
   \<and> load sampleCodec twoFiles sampleWorld =
     (Some (Errorf ''unsupported file extension: .txt''), twoFiles\<lparr>cfg := \<lparr>A = ''x''\<rparr>\<rparr>)"
proof -
  have p1: "paths threeFiles
      = [''/etc/app/config.json''] @ ''/etc/app/broken.json'' # [''/etc/app/config.yaml'']"
    by (simp add: threeFiles_def)
  have p2: "paths twoFiles
      = [''/etc/app/config.json''] @ ''/etc/app/notes.txt'' # [''/etc/app/config.yaml'']"
    by (simp add: twoFiles_def)
  have l1: "loadLoop sampleCodec [''/etc/app/config.json''] threeFiles sampleWorld
      = (None, threeFiles\<lparr>cfg := \<lparr>A = ''x''\<rparr>\<rparr>)"
    by (simp add: threeFiles_def processPath_def Let_def decoder_Decode_def path_Ext_def os_defs sample_defs)
  have l2: "loadLoop sampleCodec [''/etc/app/config.json''] twoFiles sampleWorld
      = (None, twoFiles\<lparr>cfg := \<lparr>A = ''x''\<rparr>\<rparr>)"
    by (simp add: twoFiles_def processPath_def Let_def decoder_Decode_def path_Ext_def os_defs sample_defs)
  have o1: "os_Open ''/etc/app/broken.json'' sampleWorld = Inr ''/etc/app/broken.json''"
    by (simp add: os_defs sample_defs)
  have o2: "os_Open ''/etc/app/notes.txt'' sampleWorld = Inr ''/etc/app/notes.txt''"
    by (simp add: os_defs sample_defs)
  have s1: "\<not> (\<exists>fi. file_Stat ''/etc/app/broken.json'' sampleWorld = Inr fi \<and> Size fi = 0)"
    by (simp add: os_defs sample_defs)
  have s2: "\<not> (\<exists>fi. file_Stat ''/etc/app/notes.txt'' sampleWorld = Inr fi \<and> Size fi = 0)"
    by (simp add: os_defs sample_defs)
  have d1: "formatOfExt (path_Ext ''/etc/app/broken.json'') = Some JSON
      \<and> decoder_Decode sampleCodec JSON ''/etc/app/broken.json''
           (cfg (threeFiles\<lparr>cfg := \<lparr>A = ''x''\<rparr>\<rparr>)) sampleWorld
          = (Some (External ''syntax error''), \<lparr>A = ''x''\<rparr>)"
    by (simp add: formatOfExt_def decoder_Decode_def path_Ext_def os_defs sample_defs)
  have d2: "formatOfExt (path_Ext ''/etc/app/notes.txt'') = None"
    by (simp add: formatOfExt_def path_Ext_def)
  have e2: "path_Ext ''/etc/app/notes.txt'' = ''.txt''"
    by (simp add: path_Ext_def)
  from first_load_error_aborts [OF p1 l1 o1 s1, of JSON "External ''syntax error''" "\<lparr>A = ''x''\<rparr>"] d1
       first_load_error_aborts [OF p2 l2 o2 s2] d2 e2
  show ?thesis by simp
qed

text \<open>
  C2. When resolution and load succeed, \<open>New\<close> is the run of the option list, in
  list order, on the \<open>config\<close> and the state that load left. If the options
  \<open>pre\<close> succeed and the next option \<open>f\<close> returns an error, \<open>New\<close> returns that
  error, and the record and the state are those \<open>f\<close> left, whatever options follow
  \<open>f\<close>: none of them is run. In particular, when \<open>f\<close> is a validation that fails,
  the state after \<open>New\<close> is the state in which the validation was called, so a
  write option that follows it has created or changed no file.
\<close>

theorem options_run_in_order_until_first_error:
  assumes "getConfigPaths cd \<lparr>paths = [], cfg = v\<rparr> w = (None, c1, w1)"
      and "load cd c1 w1 = (None, c2)"
  shows "New cd v opts w = (case applyAll cd opts c2 w1 of (err, c, w') \<Rightarrow> (err, cfg c, w'))
       \<and> (applyAll cd pre c2 w1 = (None, c3, w3) \<and> applyOption cd f c3 w3 = (Some err, c4, w4)
            \<longrightarrow> (\<forall>post. New cd v (pre @ f # post) w = (Some err, cfg c4, w4)))
       \<and> (applyAll cd pre c2 w1 = (None, c3, w3) \<and> g (cfg c3) = (Some err, v')
            \<longrightarrow> (\<forall>post. New cd v (pre @ WithValidation g # post) w = (Some err, v', w3)))"
proof (intro conjI impI allI)
  show n: "New cd v opts w = (case applyAll cd opts c2 w1 of (err, c, w') \<Rightarrow> (err, cfg c, w'))"
    for opts
    using assms by (simp add: New_def newConfig_def)
  show "New cd v (pre @ f # post) w = (Some err, cfg c4, w4)"
    if "applyAll cd pre c2 w1 = (None, c3, w3) \<and> applyOption cd f c3 w3 = (Some err, c4, w4)"
    for post
    using that by (simp add: n applyAll_append)
  show "New cd v (pre @ WithValidation g # post) w = (Some err, v', w3)"
    if "applyAll cd pre c2 w1 = (None, c3, w3) \<and> g (cfg c3) = (Some err, v')"
    for post
    using that by (simp add: n applyAll_append)
qed

theorem options_run_in_order_until_first_error_witness:
  "New sampleCodec \<lparr>A = ''seed''\<rparr>
      [WithValidation rejectAll, WithWritingConfigToFile ''/etc/app/out.json'']
      (withEnv DirEnvName ''/etc/app'' sampleWorld)
    = (Some (External ''rejected''), \<lparr>A = ''y''\<rparr>, withEnv DirEnvName ''/etc/app'' sampleWorld)
   \<and> files (withEnv DirEnvName ''/etc/app'' sampleWorld) ''/etc/app/out.json'' = None"
proof -
  let ?w = "withEnv DirEnvName ''/etc/app'' sampleWorld"
  let ?ps = "[''/etc/app/config.json'', ''/etc/app/config.yaml'']"
  have r: "getConfigPaths sampleCodec \<lparr>paths = [], cfg = \<lparr>A = ''seed''\<rparr>\<rparr> ?w
      = (None, \<lparr>paths = ?ps, cfg = \<lparr>A = ''seed''\<rparr>\<rparr>, ?w)"
    by (simp add: getConfigPaths_def fileExists_def path_Join_def path_Clean_def Let_def
          os_defs sample_defs)
  have l: "load sampleCodec \<lparr>paths = ?ps, cfg = \<lparr>A = ''seed''\<rparr>\<rparr> ?w
      = (None, \<lparr>paths = ?ps, cfg = \<lparr>A = ''y''\<rparr>\<rparr>)"
    by (simp add: load_def processPath_def Let_def decoder_Decode_def path_Ext_def
          os_defs sample_defs)
  have a: "applyAll sampleCodec [] \<lparr>paths = ?ps, cfg = \<lparr>A = ''y''\<rparr>\<rparr> ?w
         = (None, \<lparr>paths = ?ps, cfg = \<lparr>A = ''y''\<rparr>\<rparr>, ?w)
      \<and> rejectAll (cfg \<lparr>paths = ?ps, cfg = \<lparr>A = ''y''\<rparr>\<rparr>)
         = (Some (External ''rejected''), \<lparr>A = ''y''\<rparr>)"
    by (simp add: rejectAll_def)
  have f: "files ?w ''/etc/app/out.json'' = None"
    by (simp add: sample_defs)
  from options_run_in_order_until_first_error [OF r l, of _ "[]" _ ?w _ _ _ _ rejectAll] a f
  show ?thesis by simp
qed

text \<open>
  C4, as the claim states it, fails: with the directory hint set and \<open>Stat\<close> on the
  first candidate denied (an error that is not a not-found condition), resolution
  returns no error and leaves the candidate out, as if it did not exist.
\<close>

theorem probe_error_is_propagated_counterexample:
  "os_Stat ''/etc/app/config.json'' deniedWorld
     = Inl (PathError ''stat'' ''/etc/app/config.json'' EACCES)
   \<and> \<not> is_ErrNotExist (PathError ''stat'' ''/etc/app/config.json'' EACCES)
   \<and> getConfigPaths sampleCodec \<lparr>paths = [], cfg = \<lparr>A = ''seed''\<rparr>\<rparr> deniedWorld
     = (None, \<lparr>paths = [''/etc/app/config.yaml''], cfg = \<lparr>A = ''seed''\<rparr>\<rparr>, deniedWorld)"
  by (simp add: deniedWorld_def getConfigPaths_def fileExists_def path_Join_def path_Clean_def
        Let_def os_defs sample_defs)

text \<open>
  C4, amended. No error of probing a path is propagated. \<open>fileExists\<close> answers
  false for every error of \<open>Stat\<close>, not-found or other, and a path it answers false
  for is not among the existing paths. With the file hint unset, resolution
  returns no error and the candidates that \<open>fileExists\<close> accepts, in order. With the
  file hint set and the probe failing, resolution goes on to create the file;
  the errors it can return are those of creating and writing it.
\<close>

theorem probe_errors_are_swallowed:
  "(os_Stat q w = Inl err \<longrightarrow> \<not> fileExists q w \<and> q \<notin> set (getExistingPaths ps w))
   \<and> (os_Getenv FilePathEnvName w = [] \<longrightarrow>
        getConfigPaths cd c w =
          (None,
           c\<lparr>paths := filter (\<lambda>q. fileExists q w)
                 (if os_Getenv DirEnvName w = [] then defaultCandidates w
                  else dirCandidates (os_Getenv DirEnvName w))\<rparr>,
           w))
   \<and> (os_Getenv FilePathEnvName w = p \<and> p \<noteq> [] \<and> os_Stat p w = Inl err \<longrightarrow>
        getConfigPaths cd c w =
          (case os_Create p w of
             Inl e \<Rightarrow> (Some e, c, w)
           | Inr (f, w1) \<Rightarrow> (case writeToFile cd c f w1 of (r, w2) \<Rightarrow> (r, c, w2))))"
proof (intro conjI impI)
  assume a: "os_Stat q w = Inl err"
  then show "\<not> fileExists q w" by (simp add: fileExists_def)
  then show "q \<notin> set (getExistingPaths ps w)" by (simp add: getExistingPaths_filter)
next
  assume a: "os_Getenv FilePathEnvName w = []"
  show "getConfigPaths cd c w =
          (None,
           c\<lparr>paths := filter (\<lambda>q. fileExists q w)
                 (if os_Getenv DirEnvName w = [] then defaultCandidates w
                  else dirCandidates (os_Getenv DirEnvName w))\<rparr>,
           w)"
  proof (cases "os_Getenv DirEnvName w = []")
    case True
    with a show ?thesis
      by (simp add: getConfigPaths_default getExistingPaths_filter)
  next
    case False
    with a show ?thesis
      by (simp add: getConfigPaths_dir getExistingPaths_filter)
  qed
next
  assume a: "os_Getenv FilePathEnvName w = p \<and> p \<noteq> [] \<and> os_Stat p w = Inl err"
  then have "\<not> fileExists p w" by (simp add: fileExists_def)
  with a show "getConfigPaths cd c w =
          (case os_Create p w of
             Inl e \<Rightarrow> (Some e, c, w)
           | Inr (f, w1) \<Rightarrow> (case writeToFile cd c f w1 of (r, w2) \<Rightarrow> (r, c, w2)))"
    by (auto simp: getConfigPaths_file setConfigPathForOneFile_def
             split: sum.splits prod.splits option.splits)
qed

theorem probe_errors_are_swallowed_witness:
  "\<not> fileExists ''/etc/app/config.json'' deniedWorld
   \<and> getConfigPaths sampleCodec \<lparr>paths = [], cfg = \<lparr>A = ''seed''\<rparr>\<rparr> deniedWorld
       = (None, \<lparr>paths = [''/etc/app/config.yaml''], cfg = \<lparr>A = ''seed''\<rparr>\<rparr>, deniedWorld)
   \<and> getConfigPaths sampleCodec \<lparr>paths = [], cfg = \<lparr>A = ''seed''\<rparr>\<rparr> deniedFile
       = (Some (PathError ''open'' ''/etc/app/config.json'' EACCES),
          \<lparr>paths = [], cfg = \<lparr>A = ''seed''\<rparr>\<rparr>, deniedFile)"
proof -
  let ?c = "\<lparr>paths = [], cfg = \<lparr>A = ''seed''\<rparr>\<rparr>"
  let ?e = "PathError ''stat'' ''/etc/app/config.json'' EACCES"
  have s1: "os_Stat ''/etc/app/config.json'' deniedWorld = Inl ?e"
    by (simp add: deniedWorld_def os_defs sample_defs)
  have e1: "os_Getenv FilePathEnvName deniedWorld = []"
           "os_Getenv DirEnvName deniedWorld = ''/etc/app''"
    by (simp_all add: deniedWorld_def os_defs sample_defs)
  have f1: "filter (\<lambda>q. fileExists q deniedWorld) (dirCandidates ''/etc/app'')
      = [''/etc/app/config.yaml'']"
    by (simp add: deniedWorld_def dirCandidates_def fileExists_def path_Join_def path_Clean_def
          Let_def os_defs sample_defs)
  have s2: "os_Getenv FilePathEnvName deniedFile = ''/etc/app/config.json''
      \<and> ''/etc/app/config.json'' \<noteq> [] \<and> os_Stat ''/etc/app/config.json'' deniedFile = Inl ?e"
    by (simp add: deniedFile_def os_defs sample_defs)
  have c2: "os_Create ''/etc/app/config.json'' deniedFile
      = Inl (PathError ''open'' ''/etc/app/config.json'' EACCES)"
    by (simp add: deniedFile_def os_defs sample_defs)
  from probe_errors_are_swallowed
         [of "''/etc/app/config.json''" deniedWorld ?e "[]" sampleCodec ?c "[]"] s1 e1 f1
       probe_errors_are_swallowed
         [of "''/etc/app/config.json''" deniedFile ?e "[]" sampleCodec ?c "''/etc/app/config.json''"]
       s2 c2
  show ?thesis by simp
qed

text \<open>
  C5. The claim holds for the order of the base names, for the bare names
  following the joined ones, and for the filter (lemma \<open>default_resolution\<close>). It
  fails for what the names are joined against: \<open>currentDir\<close> is the path of the
  executable file itself, not the directory that holds it. An executable
  \<open>/opt/app/bin/server\<close> with \<open>config.toml\<close> beside it: the candidates are paths
  below the executable file, none exists, and resolution finds nothing.
\<close>

theorem default_search_joins_executable_path:
  "currentDir sampleWorld = ''/opt/app/bin/server''
   \<and> fileExists ''/opt/app/bin/config.toml'' sampleWorld
   \<and> defaultCandidates sampleWorld =
       [''/opt/app/bin/server/config.toml'', ''/opt/app/bin/server/config.json'',
        ''/opt/app/bin/server/config.yml'', ''/opt/app/bin/server/config.yaml'',
        ''config.toml'', ''config.json'', ''config.yml'', ''config.yaml'']
   \<and> getConfigPaths sampleCodec \<lparr>paths = [], cfg = \<lparr>A = ''seed''\<rparr>\<rparr> sampleWorld
       = (None, \<lparr>paths = [], cfg = \<lparr>A = ''seed''\<rparr>\<rparr>, sampleWorld)"
  by (simp add: getConfigPaths_def defaultCandidates_def currentDir_def fileExists_def
        path_Join_def path_Clean_def Let_def os_defs sample_defs)

end
